theory Spec2Isabelle
  imports Main
begin

section \<open>Data model (frontend/src/types)\<close>

text \<open>
  The \<^verbatim>\<open>Message\<close> interface. Optional members (\<^verbatim>\<open>file_url?\<close>, \<^verbatim>\<open>token_count?\<close>, ...) are
  options, \<open>None\<close> standing for \<^verbatim>\<open>undefined\<close>. The identifier is an integer-valued
  \<^verbatim>\<open>number\<close> (a server id or a \<^verbatim>\<open>Date.now()\<close> value), only ever compared with
  \<^verbatim>\<open>===\<close>. The other members of type \<^verbatim>\<open>number\<close> (token count, cost, carbon footprint,
  scores) hold values of a type \<open>'n\<close> that stands for the JavaScript numbers and is left
  abstract: nothing is assumed of it here.
\<close>

datatype sender = User | Assistant

record 'n evaluation =
  faithfulness :: 'n
  answer_relevancy :: 'n

record 'n message =
  msg_id :: int
  content :: string
  sender :: sender
  timestamp :: string
  file_url :: "string option"
  file_name :: "string option"
  token_count :: "'n option"
  cost :: "'n option"
  carbon_footprint :: "'n option"
  evaluation_scores :: "'n evaluation option"
  is_flagged :: "bool option"

section \<open>The message log of useChat\<close>

text \<open>
  The two functional updates that \<^verbatim>\<open>useChat\<close> passes to \<^verbatim>\<open>setMessages\<close>.

  \<open>appendOptimistic\<close> is the updater of \<^verbatim>\<open>sendMessage\<close>:
  \<^verbatim>\<open>prev => [...prev, tempMsg]\<close>.

  \<open>ingest\<close> is the updater of \<^verbatim>\<open>ws.onmessage\<close>:
  \<^verbatim>\<open>const exists = prev.find(m => m.id === data.payload.id);
  if (exists) return prev;
  return [...prev, data.payload];\<close>
  \<^verbatim>\<open>Array.prototype.find\<close> returns the first matching element or \<^verbatim>\<open>undefined\<close>; a
  message object is always truthy.
\<close>

definition appendOptimistic :: "'n message list \<Rightarrow> 'n message \<Rightarrow> 'n message list" where
  "appendOptimistic prev tempMsg = prev @ [tempMsg]"

definition ingest :: "'n message list \<Rightarrow> 'n message \<Rightarrow> 'n message list" where
  "ingest prev payload =
     (case find (\<lambda>m. msg_id m = msg_id payload) prev of
        Some exists \<Rightarrow> prev
      | None \<Rightarrow> prev @ [payload])"

text \<open>
  A sequence of log operations, run from left to right. \<open>fresh_ops\<close> is the caller's
  obligation for \<open>appendOptimistic\<close>: the identifier of each optimistic entry is absent
  from the log at the moment the entry is appended.
\<close>

datatype 'n log_op = AppendOptimistic "'n message" | Ingest "'n message"

fun apply_op :: "'n message list \<Rightarrow> 'n log_op \<Rightarrow> 'n message list" where
  "apply_op ms (AppendOptimistic m) = appendOptimistic ms m"
| "apply_op ms (Ingest m) = ingest ms m"

fun run_ops :: "'n message list \<Rightarrow> 'n log_op list \<Rightarrow> 'n message list" where
  "run_ops ms [] = ms"
| "run_ops ms (x # xs) = run_ops (apply_op ms x) xs"

fun fresh_op :: "'n message list \<Rightarrow> 'n log_op \<Rightarrow> bool" where
  "fresh_op ms (AppendOptimistic m) = (msg_id m \<notin> set (map msg_id ms))"
| "fresh_op ms (Ingest m) = True"

fun fresh_ops :: "'n message list \<Rightarrow> 'n log_op list \<Rightarrow> bool" where
  "fresh_ops ms [] = True"
| "fresh_ops ms (x # xs) = (fresh_op ms x \<and> fresh_ops (apply_op ms x) xs)"

definition unique_ids :: "'n message list \<Rightarrow> bool" where
  "unique_ids ms = distinct (map msg_id ms)"

section \<open>The push channel handler\<close>

text \<open>
  \<^verbatim>\<open>ws.onmessage\<close> reads \<^verbatim>\<open>event.data\<close> through \<^verbatim>\<open>JSON.parse\<close> and then reads the
  members \<^verbatim>\<open>type\<close> and \<^verbatim>\<open>payload\<close> of the result. A frame is modelled by what these
  reads see:
  \<^item> \<open>NotJson\<close>: the text is not JSON, \<^verbatim>\<open>JSON.parse\<close> throws a \<^verbatim>\<open>SyntaxError\<close>;
  \<^item> \<open>JsonNull\<close>: the text is \<^verbatim>\<open>null\<close>, so reading \<^verbatim>\<open>data.type\<close> throws a \<^verbatim>\<open>TypeError\<close>;
  \<^item> \<open>Envelope k p\<close>: any other JSON value; \<open>k\<close> is its \<^verbatim>\<open>type\<close> member when that is a
    string (\<open>None\<close> when it is absent or something else, which \<^verbatim>\<open>===\<close> never equates
    with \<^verbatim>\<open>'message'\<close>), and \<open>p\<close> is its \<^verbatim>\<open>payload\<close> member, taken to be a
    \<^verbatim>\<open>Message\<close> as the type of the log requires. Payloads of another shape are outside
    this model.
  The handler has no \<^verbatim>\<open>try\<close>: an exception leaves it before \<^verbatim>\<open>setMessages\<close> is
  reached, which is the \<open>Inl\<close> result.
\<close>

datatype js_error = SyntaxError | TypeError

datatype 'n frame = NotJson | JsonNull | Envelope "string option" "'n message"

fun onmessage :: "'n message list \<Rightarrow> 'n frame \<Rightarrow> js_error + 'n message list" where
  "onmessage prev NotJson = Inl SyntaxError"
| "onmessage prev JsonNull = Inl TypeError"
| "onmessage prev (Envelope k payload) =
     (if k = Some ''message'' then Inr (ingest prev payload) else Inr prev)"

text \<open>The log after a frame has been handled: an exception leaves it as it was.\<close>

definition log_after_frame :: "'n message list \<Rightarrow> 'n frame \<Rightarrow> 'n message list" where
  "log_after_frame prev f = (case onmessage prev f of Inl e \<Rightarrow> prev | Inr ms \<Rightarrow> ms)"

section \<open>Metrics aggregation (ChatInterface)\<close>

text \<open>
  The effect of \<^verbatim>\<open>ChatInterface\<close> that runs whenever \<^verbatim>\<open>messages\<close> changes:
  \<^verbatim>\<open>const totalTokens = messages.reduce((acc, msg) => acc + (msg.token_count || 0), 0);
  const totalCost = messages.reduce((acc, msg) => acc + (msg.cost || 0), 0);
  const totalCarbon = messages.reduce((acc, msg) => acc + (msg.carbon_footprint || 0), 0);
  onMetricsUpdate({ totalTokens, totalCost, totalCarbon });\<close>
  On the type \<open>'n\<close> of numbers, \<open>+\<close> is the addition of JavaScript numbers (the
  rounding addition of doubles) and \<open>0\<close> is the number zero: both are the bare
  operations of the syntactic classes \<open>plus\<close> and \<open>zero\<close>, which carry no law, so the
  aggregation is the code's fold from the left, in the order of the log, whatever the
  addition does. \<open>falsy v\<close> tells whether the number \<open>v\<close> is falsy (zero, negative zero
  or NaN): \<^verbatim>\<open>x || 0\<close> is \<open>0\<close> when \<open>x\<close> is \<^verbatim>\<open>undefined\<close> or falsy, and \<open>x\<close>
  otherwise.
\<close>

definition or_zero :: "('n \<Rightarrow> bool) \<Rightarrow> 'n option \<Rightarrow> 'n::zero" where
  "or_zero falsy x = (case x of None \<Rightarrow> 0 | Some v \<Rightarrow> if falsy v then 0 else v)"

record 'n metrics =
  totalTokens :: 'n
  totalCost :: 'n
  totalCarbon :: 'n

definition computeMetrics :: "('n \<Rightarrow> bool) \<Rightarrow> 'n message list \<Rightarrow> ('n::{plus,zero}) metrics" where
  "computeMetrics falsy msgs =
     \<lparr>totalTokens = foldl (\<lambda>acc msg. acc + or_zero falsy (token_count msg)) 0 msgs,
      totalCost = foldl (\<lambda>acc msg. acc + or_zero falsy (cost msg)) 0 msgs,
      totalCarbon = foldl (\<lambda>acc msg. acc + or_zero falsy (carbon_footprint msg)) 0 msgs\<rparr>"

text \<open>A message that carries none of the three usage members.\<close>

definition no_usage :: "'n message \<Rightarrow> bool" where
  "no_usage m = (token_count m = None \<and> cost m = None \<and> carbon_footprint m = None)"

section \<open>Strings and truthiness\<close>

text \<open>
  A \<open>char\<close> stands for a UTF-16 code unit below 256; strings with other code units
  are outside this model. \<^verbatim>\<open>String.prototype.trim\<close> removes white space and line
  terminators from both ends: of these, the code units below 256 are tab, line feed,
  vertical tab, form feed, carriage return, space and the no-break space \<open>0xA0\<close>. A
  string is falsy exactly when it is empty; \<^verbatim>\<open>undefined\<close> is falsy.
\<close>

definition is_space :: "char \<Rightarrow> bool" where
  "is_space c = (c \<in> set [CHR 0x09, CHR 0x0A, CHR 0x0B, CHR 0x0C, CHR 0x0D, CHR 0x20, CHR 0xA0])"

definition trim :: "string \<Rightarrow> string" where
  "trim s = rev (dropWhile is_space (rev (dropWhile is_space s)))"

definition truthy :: "string option \<Rightarrow> bool" where
  "truthy x = (case x of None \<Rightarrow> False | Some v \<Rightarrow> v \<noteq> [])"

section \<open>The API client (frontend/src/api/client.ts)\<close>

definition endpoint_sessions :: string where
  "endpoint_sessions = ''/sessions''"

definition endpoint_messages :: "string \<Rightarrow> string" where
  "endpoint_messages sessionId = ''/sessions/'' @ sessionId @ ''/messages''"

definition endpoint_messagesWithRag :: "string \<Rightarrow> string" where
  "endpoint_messagesWithRag sessionId = ''/sessions/'' @ sessionId @ ''/messages/with-rag''"

section \<open>The hook useChat\<close>

text \<open>
  The state of one \<^verbatim>\<open>useChat\<close> instance: the three \<^verbatim>\<open>useState\<close> cells and the socket
  reference (\<open>wsRef\<close> is the URL of the open socket, \<open>None\<close> for \<^verbatim>\<open>null\<close>). What a
  function does to the outside is recorded as a list of effects, in the order of
  occurrence: the requests it issues through \<^verbatim>\<open>apiClient\<close>, the sockets it closes and
  opens, and its \<^verbatim>\<open>console.error\<close> lines. A run of an \<^verbatim>\<open>async\<close> function is the value
  its promise resolves with, the state it leaves and its effects; every request sits in
  a \<^verbatim>\<open>try\<close> whose \<^verbatim>\<open>catch\<close> only logs, so none of these promises rejects. Each
  function is run to its end in one step: events arriving while it awaits a response are
  not interleaved.
\<close>

record 'n hook_state =
  messages :: "'n message list"
  isLoading :: bool
  currentSessionId :: "string option"
  wsRef :: "string option"

datatype body =
    SessionBody string
  | PlainBody string sender
  | RagBody string sender "string option" "string option"

datatype effect =
    Get string
  | Post string body
  | WsClose string
  | WsOpen string
  | ConsoleError string

record ('a, 'n) run =
  returned :: 'a
  state :: "'n hook_state"
  effects :: "effect list"

text \<open>
  \<^verbatim>\<open>connectWebSocket\<close>: close the socket held in \<^verbatim>\<open>wsRef\<close>, if any, open one for
  \<^verbatim>\<open>sid\<close> and store it.
\<close>

definition connectWebSocket :: "string \<Rightarrow> 'n hook_state \<Rightarrow> (unit, 'n) run" where
  "connectWebSocket sid s =
     (let url = ''ws://localhost:8000/ws/'' @ sid in
      \<lparr>returned = (),
       state = s\<lparr>wsRef := Some url\<rparr>,
       effects = (case wsRef s of None \<Rightarrow> [] | Some old \<Rightarrow> [WsClose old]) @ [WsOpen url]\<rparr>)"

text \<open>
  \<^verbatim>\<open>loadSession\<close>. The first argument is the outcome of \<^verbatim>\<open>GET /sessions/{sid}\<close>:
  \<open>Some msgs\<close> when it resolves, \<open>msgs\<close> being \<^verbatim>\<open>res.data.messages\<close>, and \<open>None\<close>
  when it rejects.
\<close>

definition loadSession ::
  "'n message list option \<Rightarrow> string \<Rightarrow> 'n hook_state \<Rightarrow> (unit, 'n) run" where
  "loadSession response sid s =
     (case response of
        Some msgs \<Rightarrow>
          \<lparr>returned = (),
           state = s\<lparr>messages := msgs, currentSessionId := Some sid\<rparr>,
           effects = [Get (''/sessions/'' @ sid)]\<rparr>
      | None \<Rightarrow>
          \<lparr>returned = (),
           state = s,
           effects = [Get (''/sessions/'' @ sid), ConsoleError ''Failed to load session'']\<rparr>)"

text \<open>
  What a send reads from outside: the clock (\<^verbatim>\<open>Date.now()\<close> and
  \<^verbatim>\<open>new Date().toISOString()\<close>), the outcome of \<^verbatim>\<open>POST /sessions\<close> (\<open>Some id\<close> when it
  resolves, \<open>id\<close> being \<^verbatim>\<open>res.data.id\<close>; \<open>None\<close> when it rejects) and whether the
  message-creation request resolves.
\<close>

record env =
  date_now :: int
  date_iso :: string
  post_sessions :: "string option"
  post_message :: bool

definition createSession :: "env \<Rightarrow> 'n hook_state \<Rightarrow> (string option, 'n) run" where
  "createSession e s =
     (case post_sessions e of
        Some new_id \<Rightarrow>
          (let c = connectWebSocket new_id (s\<lparr>currentSessionId := Some new_id\<rparr>) in
           \<lparr>returned = Some new_id,
            state = state c,
            effects = Post endpoint_sessions (SessionBody ''New Chat'') # effects c\<rparr>)
      | None \<Rightarrow>
          \<lparr>returned = None,
           state = s,
           effects = [Post endpoint_sessions (SessionBody ''New Chat''),
                      ConsoleError ''Failed to create session'']\<rparr>)"

text \<open>
  The optimistic entry of \<^verbatim>\<open>sendMessage\<close> and the request that creates the message.
\<close>

definition tempMsg :: "env \<Rightarrow> string \<Rightarrow> string option \<Rightarrow> string option \<Rightarrow> 'n message" where
  "tempMsg e txt fileUrl fileName =
     \<lparr>msg_id = date_now e, content = txt, sender = User, timestamp = date_iso e,
      file_url = fileUrl, file_name = fileName, token_count = None, cost = None,
      carbon_footprint = None, evaluation_scores = None, is_flagged = None\<rparr>"

definition creation_request :: "string \<Rightarrow> string \<Rightarrow> string option \<Rightarrow> string option \<Rightarrow> effect" where
  "creation_request sid txt fileUrl fileName =
     (if truthy fileUrl
      then Post (endpoint_messagesWithRag sid) (RagBody txt User fileUrl fileName)
      else Post (endpoint_messages sid) (PlainBody txt User))"

text \<open>
  The first steps of \<^verbatim>\<open>sendMessage\<close> after its guard:
  \<^verbatim>\<open>let sid = currentSessionId; if (!sid) { sid = await createSession(); ... }\<close>.
  The value returned is \<^verbatim>\<open>sid\<close>: the bound session id when it is truthy, and
  otherwise what \<^verbatim>\<open>createSession\<close> returns.
\<close>

definition ensure_session :: "env \<Rightarrow> 'n hook_state \<Rightarrow> (string option, 'n) run" where
  "ensure_session e s =
     (if \<not> truthy (currentSessionId s)
      then createSession e s
      else \<lparr>returned = currentSessionId s, state = s, effects = []\<rparr>)"

text \<open>
  \<^verbatim>\<open>sendMessage(content, fileUrl?, fileName?)\<close>, in the order of the source: the guard
  on blank content, the lazy creation of a session with its \<^verbatim>\<open>if (!sid) return\<close>, the
  busy flag, the optimistic append, the creation request with its \<^verbatim>\<open>catch\<close> and
  \<^verbatim>\<open>finally\<close>.
\<close>

definition sendMessage ::
  "env \<Rightarrow> string \<Rightarrow> string option \<Rightarrow> string option \<Rightarrow> 'n hook_state \<Rightarrow> (unit, 'n) run"
  where
  "sendMessage e txt fileUrl fileName s =
     (if trim txt = [] \<and> \<not> truthy fileUrl
      then \<lparr>returned = (), state = s, effects = []\<rparr>
      else
        let c = ensure_session e s in
          (case returned c of
             None \<Rightarrow> \<lparr>returned = (), state = state c, effects = effects c\<rparr>
           | Some sid \<Rightarrow>
               if sid = []
               then \<lparr>returned = (), state = state c, effects = effects c\<rparr>
               else
                 let s1 = (state c)\<lparr>isLoading := True\<rparr>;
                     s2 = s1\<lparr>messages :=
                            appendOptimistic (messages s1) (tempMsg e txt fileUrl fileName)\<rparr>
                 in \<lparr>returned = (),
                     state = s2\<lparr>isLoading := False\<rparr>,
                     effects = effects c @ [creation_request sid txt fileUrl fileName]
                               @ (if post_message e then []
                                  else [ConsoleError ''Failed to send message''])\<rparr>))"

text \<open>The requests of a run that create a message, through either endpoint.\<close>

fun is_creation_request :: "effect \<Rightarrow> bool" where
  "is_creation_request (Post url (PlainBody c sd)) = True"
| "is_creation_request (Post url (RagBody c sd u n)) = True"
| "is_creation_request x = False"

definition creation_requests :: "('a, 'n) run \<Rightarrow> effect list" where
  "creation_requests r = filter is_creation_request (effects r)"

section \<open>Concrete data\<close>

text \<open>
  A message with the given identifier, content and sender and with every optional member
  absent, for the concrete instances below. There the numbers are integers with their
  exact addition, \<open>0\<close> being the only falsy one; the instances use it on small integers
  only, where the addition of doubles is exact too.
\<close>

definition int_falsy :: "int \<Rightarrow> bool" where
  "int_falsy v = (v = 0)"

definition example_message :: "int \<Rightarrow> string \<Rightarrow> sender \<Rightarrow> int message" where
  "example_message i c sd =
     \<lparr>msg_id = i, content = c, sender = sd, timestamp = ''2024-01-01T00:00:00.000Z'',
      file_url = None, file_name = None, token_count = None, cost = None,
      carbon_footprint = None, evaluation_scores = None, is_flagged = None\<rparr>"

section \<open>Helper lemmas on the log\<close>

lemma find_id_None: "find (\<lambda>m. msg_id m = i) ms = None \<longleftrightarrow> i \<notin> set (map msg_id ms)"
  by (induction ms) auto

lemma ingest_present: "msg_id p \<in> set (map msg_id ms) \<Longrightarrow> ingest ms p = ms"
proof -
  assume "msg_id p \<in> set (map msg_id ms)"
  then have "find (\<lambda>m. msg_id m = msg_id p) ms \<noteq> None"
    by (simp only: find_id_None not_not)
  then show ?thesis
    by (auto simp: ingest_def)
qed

lemma ingest_absent: "msg_id p \<notin> set (map msg_id ms) \<Longrightarrow> ingest ms p = ms @ [p]"
  by (simp add: ingest_def find_id_None [THEN iffD2])

lemma unique_ids_ingest: "unique_ids ms \<Longrightarrow> unique_ids (ingest ms p)"
proof (cases "msg_id p \<in> set (map msg_id ms)")
  case True
  assume "unique_ids ms"
  with True show ?thesis by (simp only: ingest_present)
next
  case False
  assume "unique_ids ms"
  with False show ?thesis by (simp add: ingest_absent unique_ids_def)
qed

lemma unique_ids_apply_op:
  "unique_ids ms \<Longrightarrow> fresh_op ms x \<Longrightarrow> unique_ids (apply_op ms x)"
proof (cases x)
  case (AppendOptimistic m)
  assume "unique_ids ms" "fresh_op ms x"
  with AppendOptimistic show ?thesis
    by (simp add: appendOptimistic_def unique_ids_def)
next
  case (Ingest m)
  assume "unique_ids ms"
  with Ingest show ?thesis by (simp add: unique_ids_ingest)
qed

lemma fresh_ops_take: "fresh_ops ms xs \<Longrightarrow> fresh_ops ms (take n xs)"
proof (induction xs arbitrary: ms n)
  case Nil
  then show ?case by simp
next
  case (Cons x xs)
  then show ?case by (cases n) auto
qed

lemma unique_ids_run_ops:
  "unique_ids ms \<Longrightarrow> fresh_ops ms xs \<Longrightarrow> unique_ids (run_ops ms xs)"
proof (induction xs arbitrary: ms)
  case Nil
  then show ?case by simp
next
  case (Cons x xs)
  from Cons.prems have "unique_ids (apply_op ms x)" "fresh_ops (apply_op ms x) xs"
    by (simp_all add: unique_ids_apply_op)
  then show ?case by (simp add: Cons.IH)
qed

section \<open>Helper lemmas on metrics and strings\<close>

lemma foldl_snoc_add:
  "foldl (\<lambda>acc m. acc + g m) a (xs @ [x]) = foldl (\<lambda>acc m. acc + g m) a xs + g x"
  by simp

lemma foldl_add_map:
  "(\<And>m. g (h m) = g m) \<Longrightarrow>
   foldl (\<lambda>acc m. acc + g m) a (map h xs) = foldl (\<lambda>acc m. acc + g m) a xs"
  by (induction xs arbitrary: a) simp_all

lemma foldl_add_filter:
  assumes zero_right: "\<And>x::'n::{plus,zero}. x + 0 = x"
    and skipped: "\<And>m. \<not> P m \<Longrightarrow> g m = (0::'n)"
  shows "foldl (\<lambda>acc m. acc + g m) a (filter P xs) = foldl (\<lambda>acc m. acc + g m) a xs"
proof (induction xs arbitrary: a)
  case Nil
  show ?case by simp
next
  case (Cons x xs)
  show ?case
  proof (cases "P x")
    case True
    then show ?thesis by (simp add: Cons.IH)
  next
    case False
    then have "a + g x = a" by (simp add: skipped zero_right)
    with False show ?thesis by (simp add: Cons.IH)
  qed
qed

lemma or_zero_None: "or_zero falsy None = 0"
  by (simp add: or_zero_def)

lemma computeMetrics_Nil:
  "computeMetrics falsy [] = \<lparr>totalTokens = 0, totalCost = 0, totalCarbon = 0\<rparr>"
  by (simp add: computeMetrics_def)

lemma computeMetrics_snoc:
  "computeMetrics falsy (msgs @ [m]) =
     \<lparr>totalTokens = totalTokens (computeMetrics falsy msgs) + or_zero falsy (token_count m),
      totalCost = totalCost (computeMetrics falsy msgs) + or_zero falsy (cost m),
      totalCarbon = totalCarbon (computeMetrics falsy msgs)
                    + or_zero falsy (carbon_footprint m)\<rparr>"
  by (simp add: computeMetrics_def)

lemma computeMetrics_sender:
  "computeMetrics falsy (map (\<lambda>m. m\<lparr>sender := f m\<rparr>) msgs) = computeMetrics falsy msgs"
proof -
  have t: "foldl (\<lambda>acc m. acc + or_zero falsy (token_count m)) 0 (map (\<lambda>m. m\<lparr>sender := f m\<rparr>) msgs)
         = foldl (\<lambda>acc m. acc + or_zero falsy (token_count m)) 0 msgs"
    by (rule foldl_add_map) simp
  have c: "foldl (\<lambda>acc m. acc + or_zero falsy (cost m)) 0 (map (\<lambda>m. m\<lparr>sender := f m\<rparr>) msgs)
         = foldl (\<lambda>acc m. acc + or_zero falsy (cost m)) 0 msgs"
    by (rule foldl_add_map) simp
  have k: "foldl (\<lambda>acc m. acc + or_zero falsy (carbon_footprint m)) 0
             (map (\<lambda>m. m\<lparr>sender := f m\<rparr>) msgs)
         = foldl (\<lambda>acc m. acc + or_zero falsy (carbon_footprint m)) 0 msgs"
    by (rule foldl_add_map) simp
  show ?thesis
    by (simp only: computeMetrics_def t c k)
qed

lemma computeMetrics_no_usage:
  assumes zero_right: "\<And>x::'n::{plus,zero}. x + 0 = x"
  shows "computeMetrics falsy (filter (\<lambda>m. \<not> no_usage m) msgs)
       = (computeMetrics falsy msgs :: 'n metrics)"
proof -
  let ?P = "\<lambda>m::'n message. \<not> no_usage m"
  have t: "foldl (\<lambda>acc m. acc + or_zero falsy (token_count m)) 0 (filter ?P msgs)
         = foldl (\<lambda>acc m. acc + or_zero falsy (token_count m)) 0 msgs"
    by (rule foldl_add_filter [OF zero_right]) (simp add: no_usage_def or_zero_None)
  have c: "foldl (\<lambda>acc m. acc + or_zero falsy (cost m)) 0 (filter ?P msgs)
         = foldl (\<lambda>acc m. acc + or_zero falsy (cost m)) 0 msgs"
    by (rule foldl_add_filter [OF zero_right]) (simp add: no_usage_def or_zero_None)
  have k: "foldl (\<lambda>acc m. acc + or_zero falsy (carbon_footprint m)) 0 (filter ?P msgs)
         = foldl (\<lambda>acc m. acc + or_zero falsy (carbon_footprint m)) 0 msgs"
    by (rule foldl_add_filter [OF zero_right]) (simp add: no_usage_def or_zero_None)
  show ?thesis
    by (simp only: computeMetrics_def t c k)
qed

lemma trim_Nil_iff: "trim s = [] \<longleftrightarrow> (\<forall>c \<in> set s. is_space c)"
proof -
  have "trim s = [] \<longleftrightarrow> (\<forall>c \<in> set (dropWhile is_space s). is_space c)"
    by (simp add: trim_def dropWhile_eq_Nil_conv)
  also have "\<dots> \<longleftrightarrow> dropWhile is_space s = []"
  proof
    assume a: "\<forall>c \<in> set (dropWhile is_space s). is_space c"
    show "dropWhile is_space s = []"
    proof (rule ccontr)
      assume ne: "dropWhile is_space s \<noteq> []"
      then have "\<not> is_space (hd (dropWhile is_space s))" by (rule hd_dropWhile)
      moreover from ne have "hd (dropWhile is_space s) \<in> set (dropWhile is_space s)" by simp
      ultimately show False using a by blast
    qed
  next
    assume e: "dropWhile is_space s = []"
    show "\<forall>c \<in> set (dropWhile is_space s). is_space c"
      unfolding e by simp
  qed
  also have "\<dots> \<longleftrightarrow> (\<forall>c \<in> set s. is_space c)"
    by (simp add: dropWhile_eq_Nil_conv)
  finally show ?thesis .
qed

section \<open>Helper lemmas on sending\<close>

lemma creation_requests_ensure_session:
  "filter is_creation_request (effects (ensure_session e s)) = []"
  by (simp add: ensure_session_def createSession_def connectWebSocket_def Let_def
      split: option.splits)

lemma ensure_session_state:
  "messages (state (ensure_session e s)) = messages s
   \<and> isLoading (state (ensure_session e s)) = isLoading s"
  by (simp add: ensure_session_def createSession_def connectWebSocket_def Let_def
      split: option.splits)

lemma ensure_session_bound:
  "returned (ensure_session e s) = Some sid \<Longrightarrow>
   currentSessionId (state (ensure_session e s)) = Some sid"
  by (simp add: ensure_session_def createSession_def connectWebSocket_def Let_def
      split: option.splits if_splits)

lemma ensure_session_failed:
  "\<not> truthy (currentSessionId s) \<Longrightarrow> post_sessions e = None \<Longrightarrow>
   ensure_session e s = \<lparr>returned = None, state = s,
     effects = [Post endpoint_sessions (SessionBody ''New Chat''),
                ConsoleError ''Failed to create session'']\<rparr>"
  by (simp add: ensure_session_def createSession_def)

lemma ensure_session_post_message:
  "ensure_session (e\<lparr>post_message := b\<rparr>) s = ensure_session e s"
  by (simp add: ensure_session_def createSession_def)

lemma tempMsg_post_message:
  "tempMsg (e\<lparr>post_message := b\<rparr>) txt fileUrl fileName = tempMsg e txt fileUrl fileName"
  by (simp add: tempMsg_def)

lemma is_creation_request_creation_request:
  "is_creation_request (creation_request sid txt fileUrl fileName)"
  by (simp add: creation_request_def)

lemma sendMessage_blank:
  "trim txt = [] \<Longrightarrow> \<not> truthy fileUrl \<Longrightarrow>
   sendMessage e txt fileUrl fileName s = \<lparr>returned = (), state = s, effects = []\<rparr>"
  by (simp add: sendMessage_def)

lemma sendMessage_no_session:
  "\<not> truthy (currentSessionId s) \<Longrightarrow> post_sessions e = None \<Longrightarrow>
   state (sendMessage e txt fileUrl fileName s) = s
   \<and> creation_requests (sendMessage e txt fileUrl fileName s) = []"
  by (simp add: sendMessage_def ensure_session_failed creation_requests_def)

lemma sendMessage_with_session:
  assumes "\<not> (trim txt = [] \<and> \<not> truthy fileUrl)"
    and "returned (ensure_session e s) = Some sid" and "sid \<noteq> []"
  shows "sendMessage e txt fileUrl fileName s =
     \<lparr>returned = (),
      state = (state (ensure_session e s))
                \<lparr>messages := messages s @ [tempMsg e txt fileUrl fileName], isLoading := False\<rparr>,
      effects = effects (ensure_session e s) @ creation_request sid txt fileUrl fileName
                # (if post_message e then [] else [ConsoleError ''Failed to send message''])\<rparr>"
  using assms
  by (simp add: sendMessage_def appendOptimistic_def Let_def ensure_session_state)

lemma creation_requests_with_session:
  assumes "\<not> (trim txt = [] \<and> \<not> truthy fileUrl)"
    and "returned (ensure_session e s) = Some sid" and "sid \<noteq> []"
  shows "creation_requests (sendMessage e txt fileUrl fileName s)
           = [creation_request sid txt fileUrl fileName]"
  by (simp add: sendMessage_with_session [OF assms] creation_requests_def
      creation_requests_ensure_session is_creation_request_creation_request)


section \<open>Claims\<close>

text \<open>
  C1 (as stated, refuted). A message with sender \<^verbatim>\<open>user\<close> that carries a token count
  of 5 contributes 5 to \<open>totalTokens\<close>, where the sum over the assistant messages alone
  is 0: the aggregation has no test of the sender.
\<close>

theorem C1_user_usage_counted_counterexample:
  "sender ((example_message 1 ''hi'' User)\<lparr>token_count := Some 5\<rparr>) = User
   \<and> totalTokens (computeMetrics int_falsy
        [(example_message 1 ''hi'' User)\<lparr>token_count := Some 5\<rparr>]) = 5
   \<and> totalTokens (computeMetrics int_falsy (filter (\<lambda>m. sender m = Assistant)
        [(example_message 1 ''hi'' User)\<lparr>token_count := Some 5\<rparr>])) = 0"
  by (simp add: computeMetrics_def example_message_def or_zero_def int_falsy_def)

text \<open>
  C1 (amended). The metrics aggregation is a pure function of the message log that sums
  \<^verbatim>\<open>token_count\<close>, \<^verbatim>\<open>cost\<close> and \<^verbatim>\<open>carbon_footprint\<close> over all messages, whatever their
  sender, treating absent values as zero. The totals of the empty log are zero, and each
  message appended to the log, of either sender, adds its three values to the totals of
  the log before it, an absent or falsy value counting as zero; this is the code's fold
  from the left and holds whatever the addition of numbers does. Replacing the sender of
  every message changes no total. Where adding zero changes no number, messages carrying
  no usage member, of either sender, contribute nothing.
\<close>

theorem C1_metrics_amended:
  "computeMetrics falsy [] = \<lparr>totalTokens = 0, totalCost = 0, totalCarbon = 0\<rparr>
   \<and> computeMetrics falsy (msgs @ [m]) =
       \<lparr>totalTokens = totalTokens (computeMetrics falsy msgs)
          + (case token_count m of None \<Rightarrow> 0 | Some v \<Rightarrow> if falsy v then 0 else v),
        totalCost = totalCost (computeMetrics falsy msgs)
          + (case cost m of None \<Rightarrow> 0 | Some v \<Rightarrow> if falsy v then 0 else v),
        totalCarbon = totalCarbon (computeMetrics falsy msgs)
          + (case carbon_footprint m of None \<Rightarrow> 0 | Some v \<Rightarrow> if falsy v then 0 else v)\<rparr>
   \<and> computeMetrics falsy (map (\<lambda>m. m\<lparr>sender := f m\<rparr>) msgs) = computeMetrics falsy msgs
   \<and> ((\<forall>x::'n::{plus,zero}. x + 0 = x) \<longrightarrow>
        computeMetrics falsy (filter (\<lambda>m. \<not> no_usage m) msgs)
        = (computeMetrics falsy msgs :: 'n metrics))"
proof -
  have nil: "computeMetrics falsy [] = \<lparr>totalTokens = 0, totalCost = 0, totalCarbon = (0::'n)\<rparr>"
    by (rule computeMetrics_Nil)
  have snoc: "computeMetrics falsy (msgs @ [m]) =
       \<lparr>totalTokens = totalTokens (computeMetrics falsy msgs)
          + (case token_count m of None \<Rightarrow> 0 | Some v \<Rightarrow> if falsy v then 0 else v),
        totalCost = totalCost (computeMetrics falsy msgs)
          + (case cost m of None \<Rightarrow> 0 | Some v \<Rightarrow> if falsy v then 0 else v),
        totalCarbon = totalCarbon (computeMetrics falsy msgs)
          + (case carbon_footprint m of None \<Rightarrow> 0 | Some v \<Rightarrow> if falsy v then 0 else v)\<rparr>"
    by (simp only: computeMetrics_snoc or_zero_def)
  have snd: "computeMetrics falsy (map (\<lambda>m. m\<lparr>sender := f m\<rparr>) msgs) = computeMetrics falsy msgs"
    by (rule computeMetrics_sender)
  have skip: "(\<forall>x::'n. x + 0 = x) \<longrightarrow>
        computeMetrics falsy (filter (\<lambda>m. \<not> no_usage m) msgs) = computeMetrics falsy msgs"
  proof
    assume "\<forall>x::'n. x + 0 = x"
    then have "\<And>x::'n. x + 0 = x" by blast
    then show "computeMetrics falsy (filter (\<lambda>m. \<not> no_usage m) msgs) = computeMetrics falsy msgs"
      by (rule computeMetrics_no_usage)
  qed
  from nil snoc snd skip show ?thesis by blast
qed

theorem C1_metrics_witness:
  "(\<forall>x::int. x + 0 = x)
   \<and> computeMetrics int_falsy
        [example_message 1 ''question'' User,
         (example_message 2 ''answer'' Assistant)
           \<lparr>token_count := Some 10, cost := Some 3, carbon_footprint := Some 1\<rparr>,
         (example_message 3 ''thanks'' User)\<lparr>token_count := Some 5\<rparr>]
     = \<lparr>totalTokens = 15, totalCost = 3, totalCarbon = 1\<rparr>
   \<and> computeMetrics int_falsy (filter (\<lambda>m. \<not> no_usage m)
        [example_message 1 ''question'' User,
         (example_message 2 ''answer'' Assistant)
           \<lparr>token_count := Some 10, cost := Some 3, carbon_footprint := Some 1\<rparr>,
         (example_message 3 ''thanks'' User)\<lparr>token_count := Some 5\<rparr>])
     = \<lparr>totalTokens = 15, totalCost = 3, totalCarbon = 1\<rparr>"
proof -
  let ?m1 = "example_message 1 ''question'' User"
  let ?m2 = "(example_message 2 ''answer'' Assistant)
           \<lparr>token_count := Some 10, cost := Some 3, carbon_footprint := Some 1\<rparr>"
  let ?m3 = "(example_message 3 ''thanks'' User)\<lparr>token_count := Some 5\<rparr>"
  have law: "\<forall>x::int. x + 0 = x"
    by simp
  have s0: "computeMetrics int_falsy ([]::int message list)
          = \<lparr>totalTokens = 0, totalCost = 0, totalCarbon = 0\<rparr>"
    using C1_metrics_amended [of int_falsy "[]" ?m1] by blast
  have s1: "computeMetrics int_falsy [?m1] = \<lparr>totalTokens = 0, totalCost = 0, totalCarbon = 0\<rparr>"
    using C1_metrics_amended [of int_falsy "[]" ?m1] s0
    by (simp add: example_message_def)
  have s2: "computeMetrics int_falsy [?m1, ?m2]
          = \<lparr>totalTokens = 10, totalCost = 3, totalCarbon = 1\<rparr>"
    using C1_metrics_amended [of int_falsy "[?m1]" ?m2] s1
    by (simp add: example_message_def int_falsy_def)
  have s3: "computeMetrics int_falsy [?m1, ?m2, ?m3]
          = \<lparr>totalTokens = 15, totalCost = 3, totalCarbon = 1\<rparr>"
    using C1_metrics_amended [of int_falsy "[?m1, ?m2]" ?m3] s2
    by (simp add: example_message_def int_falsy_def)
  from C1_metrics_amended [of int_falsy "[?m1, ?m2, ?m3]"] law
  have "computeMetrics int_falsy (filter (\<lambda>m. \<not> no_usage m) [?m1, ?m2, ?m3])
          = computeMetrics int_falsy [?m1, ?m2, ?m3]"
    by blast
  with law s3 show ?thesis by simp
qed

text \<open>
  C2. When the log already holds an entry with the identifier of the payload, a pushed
  frame of kind \<^verbatim>\<open>message\<close> is handled without error and returns the log itself: the
  same entries with the same contents in the same order, hence the same length; the
  pushed copy is discarded.
\<close>

theorem C2_duplicate_ingest_keeps_log:
  assumes "\<exists>m \<in> set ms. msg_id m = msg_id p"
  shows "onmessage ms (Envelope (Some ''message'') p) = Inr ms
       \<and> log_after_frame ms (Envelope (Some ''message'') p) = ms
       \<and> length (log_after_frame ms (Envelope (Some ''message'') p)) = length ms
       \<and> map content (log_after_frame ms (Envelope (Some ''message'') p)) = map content ms"
proof -
  from assms obtain m where m: "m \<in> set ms" "msg_id m = msg_id p" by blast
  from m(1) have "msg_id m \<in> set (map msg_id ms)" by simp
  with m(2) have "msg_id p \<in> set (map msg_id ms)" by simp
  then have eq: "ingest ms p = ms" by (rule ingest_present)
  have run: "onmessage ms (Envelope (Some ''message'') p) = Inr ms"
    by (simp add: eq)
  then have step: "log_after_frame ms (Envelope (Some ''message'') p) = ms"
    by (simp add: log_after_frame_def)
  from run step show ?thesis by simp
qed

theorem C2_duplicate_ingest_witness:
  "(\<exists>m \<in> set [example_message 1 ''A'' User, example_message 2 ''B'' Assistant,
                 example_message 3 ''C'' User].
      msg_id m = msg_id (example_message 2 ''other'' Assistant))
   \<and> onmessage [example_message 1 ''A'' User, example_message 2 ''B'' Assistant,
                example_message 3 ''C'' User]
        (Envelope (Some ''message'') (example_message 2 ''other'' Assistant))
     = Inr [example_message 1 ''A'' User, example_message 2 ''B'' Assistant,
            example_message 3 ''C'' User]"
proof -
  let ?ms = "[example_message 1 ''A'' User, example_message 2 ''B'' Assistant,
              example_message 3 ''C'' User]"
  let ?p = "example_message 2 ''other'' Assistant"
  have h: "\<exists>m \<in> set ?ms. msg_id m = msg_id ?p"
    by (simp add: example_message_def)
  from C2_duplicate_ingest_keeps_log [OF h] h show ?thesis
    by blast
qed

text \<open>
  C3. Start from a log without duplicate identifiers and run any sequence of
  \<open>appendOptimistic\<close> and \<open>ingest\<close> operations in which every optimistic entry has an
  identifier that is absent from the log when it is appended. Then the log has no two
  entries with the same identifier after each operation of the sequence, and so at its
  end.
\<close>

theorem C3_unique_ids_after_every_op:
  assumes "unique_ids ms" and "fresh_ops ms ops"
  shows "(\<forall>n \<le> length ops. unique_ids (run_ops ms (take n ops)))
       \<and> unique_ids (run_ops ms ops)"
proof -
  have "unique_ids (run_ops ms (take n ops))" for n
    using assms by (simp add: unique_ids_run_ops fresh_ops_take)
  moreover have "unique_ids (run_ops ms ops)"
    using assms by (rule unique_ids_run_ops)
  ultimately show ?thesis by blast
qed

theorem C3_unique_ids_witness:
  "unique_ids [example_message 1 ''A'' Assistant]
   \<and> fresh_ops [example_message 1 ''A'' Assistant]
        [AppendOptimistic (example_message 7 ''hi'' User),
         Ingest (example_message 7 ''hi'' User),
         Ingest (example_message 2 ''answer'' Assistant)]
   \<and> unique_ids (run_ops [example_message 1 ''A'' Assistant]
        [AppendOptimistic (example_message 7 ''hi'' User),
         Ingest (example_message 7 ''hi'' User),
         Ingest (example_message 2 ''answer'' Assistant)])"
proof -
  let ?ms = "[example_message 1 ''A'' Assistant]"
  let ?ops = "[AppendOptimistic (example_message 7 ''hi'' User),
               Ingest (example_message 7 ''hi'' User),
               Ingest (example_message 2 ''answer'' Assistant)]"
  have u: "unique_ids ?ms"
    by (simp add: unique_ids_def)
  have f: "fresh_ops ?ms ?ops"
    by (simp add: example_message_def appendOptimistic_def)
  from C3_unique_ids_after_every_op [OF u f] u f show ?thesis
    by blast
qed

text \<open>
  C4 (as stated, refuted). A frame that is not JSON is not dropped silently: the handler
  raises a \<^verbatim>\<open>SyntaxError\<close>.
\<close>

theorem C4_not_json_raises_counterexample:
  "onmessage ([]::int message list) NotJson = Inl SyntaxError"
  by simp

text \<open>
  C4 (amended). For every inbound push frame the log is left unchanged unless the frame
  is a JSON envelope of kind \<^verbatim>\<open>message\<close>. A frame that parses to a JSON value other
  than \<^verbatim>\<open>null\<close> and whose kind is not \<^verbatim>\<open>message\<close> is dropped silently, without
  failure. A frame that is not JSON makes the handler raise a \<^verbatim>\<open>SyntaxError\<close> and the
  frame \<^verbatim>\<open>null\<close> makes it raise a \<^verbatim>\<open>TypeError\<close>; the log stays as it was in both
  cases.
\<close>

theorem C4_frames_amended:
  "(k \<noteq> Some ''message'' \<longrightarrow> onmessage ms (Envelope k p) = Inr ms)
   \<and> (log_after_frame ms f \<noteq> ms \<longrightarrow> (\<exists>q. f = Envelope (Some ''message'') q))
   \<and> onmessage ms NotJson = Inl SyntaxError
   \<and> log_after_frame ms NotJson = ms
   \<and> onmessage ms JsonNull = Inl TypeError
   \<and> log_after_frame ms JsonNull = ms"
proof -
  have other: "k \<noteq> Some ''message'' \<longrightarrow> onmessage ms (Envelope k p) = Inr ms"
    by simp
  have changed: "log_after_frame ms f \<noteq> ms \<longrightarrow> (\<exists>q. f = Envelope (Some ''message'') q)"
    by (cases f) (auto simp: log_after_frame_def)
  have raised: "onmessage ms NotJson = Inl SyntaxError" "onmessage ms JsonNull = Inl TypeError"
    by simp_all
  have kept: "log_after_frame ms NotJson = ms" "log_after_frame ms JsonNull = ms"
    by (simp_all add: log_after_frame_def)
  from other changed raised kept show ?thesis by blast
qed

theorem C4_frames_witness:
  "Some ''typing'' \<noteq> Some ''message''
   \<and> onmessage [example_message 1 ''A'' User]
        (Envelope (Some ''typing'') (example_message 2 ''B'' Assistant))
     = Inr [example_message 1 ''A'' User]
   \<and> log_after_frame [] (Envelope (Some ''message'') (example_message 2 ''B'' Assistant)) \<noteq> []
   \<and> (\<exists>q. Envelope (Some ''message'') (example_message 2 ''B'' Assistant)
            = Envelope (Some ''message'') q)"
proof -
  have k: "Some ''typing'' \<noteq> Some ''message''"
    by simp
  have c: "log_after_frame [] (Envelope (Some ''message'') (example_message 2 ''B'' Assistant)) \<noteq> []"
    by (simp add: log_after_frame_def ingest_def)
  from C4_frames_amended [of "Some ''typing''" "[example_message 1 ''A'' User]"
      "example_message 2 ''B'' Assistant"] k
  have first: "onmessage [example_message 1 ''A'' User]
        (Envelope (Some ''typing'') (example_message 2 ''B'' Assistant))
     = Inr [example_message 1 ''A'' User]"
    by blast
  from C4_frames_amended [of _ "[]" _ "Envelope (Some ''message'') (example_message 2 ''B'' Assistant)"] c
  have second: "\<exists>q. Envelope (Some ''message'') (example_message 2 ''B'' Assistant)
            = Envelope (Some ''message'') q"
    by blast
  from k first c second show ?thesis by blast
qed

text \<open>
  C5 (as stated, refuted). With a session bound, a send whose creation request fails
  resolves with the same value and leaves the same state of the hook as the send whose
  creation request succeeds: nothing that the caller of \<^verbatim>\<open>sendMessage\<close> receives tells
  the two apart.
\<close>

theorem C5_failure_not_surfaced_counterexample:
  "returned (sendMessage
      \<lparr>date_now = 1700000000000, date_iso = ''2023-11-14T22:13:20.000Z'',
       post_sessions = None, post_message = False\<rparr> ''hi'' None None
      \<lparr>messages = ([]::int message list), isLoading = False, currentSessionId = Some ''s1'',
       wsRef = Some ''ws://localhost:8000/ws/s1''\<rparr>)
   = returned (sendMessage
      \<lparr>date_now = 1700000000000, date_iso = ''2023-11-14T22:13:20.000Z'',
       post_sessions = None, post_message = True\<rparr> ''hi'' None None
      \<lparr>messages = ([]::int message list), isLoading = False, currentSessionId = Some ''s1'',
       wsRef = Some ''ws://localhost:8000/ws/s1''\<rparr>)
   \<and> state (sendMessage
      \<lparr>date_now = 1700000000000, date_iso = ''2023-11-14T22:13:20.000Z'',
       post_sessions = None, post_message = False\<rparr> ''hi'' None None
      \<lparr>messages = ([]::int message list), isLoading = False, currentSessionId = Some ''s1'',
       wsRef = Some ''ws://localhost:8000/ws/s1''\<rparr>)
   = state (sendMessage
      \<lparr>date_now = 1700000000000, date_iso = ''2023-11-14T22:13:20.000Z'',
       post_sessions = None, post_message = True\<rparr> ''hi'' None None
      \<lparr>messages = ([]::int message list), isLoading = False, currentSessionId = Some ''s1'',
       wsRef = Some ''ws://localhost:8000/ws/s1''\<rparr>)"
  by (simp add: sendMessage_def ensure_session_def truthy_def trim_def is_space_def
      tempMsg_def Let_def)

text \<open>
  C5 (amended). When the message-creation request fails after the optimistic append, the
  optimistic entry remains at the tail of the log (no rollback), the creation request is
  the only one issued (no retry) and the busy flag is cleared. The failure is written to
  the console and nowhere else: the send resolves with the same value and leaves the same
  state as it does when the request succeeds. Here \<open>sid\<close> is the session id the send
  works with, bound before or created by it.
\<close>

theorem C5_failed_send_amended:
  assumes "\<not> (trim txt = [] \<and> \<not> truthy fileUrl)"
    and "returned (ensure_session e s) = Some sid" and "sid \<noteq> []"
    and "\<not> post_message e"
  shows "messages (state (sendMessage e txt fileUrl fileName s))
           = messages s @ [tempMsg e txt fileUrl fileName]
       \<and> isLoading (state (sendMessage e txt fileUrl fileName s)) = False
       \<and> creation_requests (sendMessage e txt fileUrl fileName s)
           = [creation_request sid txt fileUrl fileName]
       \<and> effects (sendMessage e txt fileUrl fileName s)
           = effects (sendMessage (e\<lparr>post_message := True\<rparr>) txt fileUrl fileName s)
             @ [ConsoleError ''Failed to send message'']
       \<and> state (sendMessage e txt fileUrl fileName s)
           = state (sendMessage (e\<lparr>post_message := True\<rparr>) txt fileUrl fileName s)
       \<and> returned (sendMessage e txt fileUrl fileName s)
           = returned (sendMessage (e\<lparr>post_message := True\<rparr>) txt fileUrl fileName s)"
proof -
  note eq = sendMessage_with_session [OF assms(1-3)]
  have sid': "returned (ensure_session (e\<lparr>post_message := True\<rparr>) s) = Some sid"
    using assms(2) by (simp only: ensure_session_post_message)
  note eq' = sendMessage_with_session [OF assms(1) sid' assms(3)]
  have log: "messages (state (sendMessage e txt fileUrl fileName s))
           = messages s @ [tempMsg e txt fileUrl fileName]"
    by (simp add: eq)
  have busy: "isLoading (state (sendMessage e txt fileUrl fileName s)) = False"
    by (simp add: eq)
  have reqs: "creation_requests (sendMessage e txt fileUrl fileName s)
           = [creation_request sid txt fileUrl fileName]"
    using assms(1-3) by (rule creation_requests_with_session)
  have eff: "effects (sendMessage e txt fileUrl fileName s)
           = effects (sendMessage (e\<lparr>post_message := True\<rparr>) txt fileUrl fileName s)
             @ [ConsoleError ''Failed to send message'']"
    using assms(4) by (simp add: eq eq' ensure_session_post_message)
  have st: "state (sendMessage e txt fileUrl fileName s)
           = state (sendMessage (e\<lparr>post_message := True\<rparr>) txt fileUrl fileName s)"
    by (simp add: eq eq' ensure_session_post_message tempMsg_post_message)
  from log busy reqs eff st show ?thesis by simp
qed

theorem C5_failed_send_witness:
  "\<not> (trim ''hi'' = [] \<and> \<not> truthy None)
   \<and> returned (ensure_session
        \<lparr>date_now = 1700000000000, date_iso = ''2023-11-14T22:13:20.000Z'',
         post_sessions = None, post_message = False\<rparr>
        \<lparr>messages = [example_message 1 ''A'' Assistant], isLoading = False,
         currentSessionId = Some ''s1'', wsRef = Some ''ws://localhost:8000/ws/s1''\<rparr>)
     = Some ''s1''
   \<and> ''s1'' \<noteq> []
   \<and> \<not> post_message
        \<lparr>date_now = 1700000000000, date_iso = ''2023-11-14T22:13:20.000Z'',
         post_sessions = None, post_message = False\<rparr>
   \<and> map msg_id (messages (state (sendMessage
        \<lparr>date_now = 1700000000000, date_iso = ''2023-11-14T22:13:20.000Z'',
         post_sessions = None, post_message = False\<rparr> ''hi'' None None
        \<lparr>messages = [example_message 1 ''A'' Assistant], isLoading = False,
         currentSessionId = Some ''s1'', wsRef = Some ''ws://localhost:8000/ws/s1''\<rparr>)))
     = [1, 1700000000000]"
proof -
  let ?e = "\<lparr>date_now = 1700000000000, date_iso = ''2023-11-14T22:13:20.000Z'',
         post_sessions = None, post_message = False\<rparr>"
  let ?s = "\<lparr>messages = [example_message 1 ''A'' Assistant], isLoading = False,
         currentSessionId = Some ''s1'', wsRef = Some ''ws://localhost:8000/ws/s1''\<rparr>"
  have h1: "\<not> (trim ''hi'' = [] \<and> \<not> truthy None)"
    by (simp add: trim_def is_space_def)
  have h2: "returned (ensure_session ?e ?s) = Some ''s1''"
    by (simp add: ensure_session_def truthy_def)
  have h3: "''s1'' \<noteq> []"
    by simp
  have h4: "\<not> post_message ?e"
    by simp
  from C5_failed_send_amended [OF h1 h2 h3 h4, of None]
  have "messages (state (sendMessage ?e ''hi'' None None ?s))
          = messages ?s @ [tempMsg ?e ''hi'' None None]"
    by blast
  then have "map msg_id (messages (state (sendMessage ?e ''hi'' None None ?s)))
          = [1, 1700000000000]"
    by (simp add: tempMsg_def example_message_def)
  with h1 h2 h3 h4 show ?thesis by blast
qed

text \<open>
  C6. For every send issued while no session id is bound (the bound id is \<^verbatim>\<open>undefined\<close>
  or empty), if the session-creation request fails, the send is abandoned: the state of
  the hook is left exactly as it was, so no optimistic entry is appended, and no
  message-creation request is issued.
\<close>

theorem C6_session_creation_failure:
  assumes "\<not> truthy (currentSessionId s)" and "post_sessions e = None"
  shows "state (sendMessage e txt fileUrl fileName s) = s
       \<and> messages (state (sendMessage e txt fileUrl fileName s)) = messages s
       \<and> creation_requests (sendMessage e txt fileUrl fileName s) = []"
  using sendMessage_no_session [OF assms] by simp

theorem C6_session_creation_failure_witness:
  "\<not> truthy (currentSessionId
        \<lparr>messages = ([]::int message list), isLoading = False, currentSessionId = None, wsRef = None\<rparr>)
   \<and> post_sessions
        \<lparr>date_now = 1700000000000, date_iso = ''2023-11-14T22:13:20.000Z'',
         post_sessions = None, post_message = True\<rparr> = None
   \<and> state (sendMessage
        \<lparr>date_now = 1700000000000, date_iso = ''2023-11-14T22:13:20.000Z'',
         post_sessions = None, post_message = True\<rparr> ''Hello'' None None
        \<lparr>messages = ([]::int message list), isLoading = False, currentSessionId = None, wsRef = None\<rparr>)
     = \<lparr>messages = ([]::int message list), isLoading = False, currentSessionId = None, wsRef = None\<rparr>"
proof -
  let ?e = "\<lparr>date_now = 1700000000000, date_iso = ''2023-11-14T22:13:20.000Z'',
         post_sessions = None, post_message = True\<rparr>"
  let ?s = "\<lparr>messages = ([]::int message list), isLoading = False, currentSessionId = None, wsRef = None\<rparr>"
  have h1: "\<not> truthy (currentSessionId ?s)"
    by (simp add: truthy_def)
  have h2: "post_sessions ?e = None"
    by simp
  from C6_session_creation_failure [OF h1 h2, of "''Hello''" None None] h1 h2
  show ?thesis by blast
qed

text \<open>
  C7 (as stated, refuted). A session load that fails on a log holding one message leaves
  that message in the log: the log is not empty afterwards.
\<close>

theorem C7_failed_load_keeps_log_counterexample:
  "messages (state (loadSession None ''b''
      \<lparr>messages = [example_message 1 ''A'' User], isLoading = False,
       currentSessionId = Some ''a'', wsRef = Some ''ws://localhost:8000/ws/a''\<rparr>))
   = [example_message 1 ''A'' User]
   \<and> [example_message 1 ''A'' User] \<noteq> []"
  by (simp add: loadSession_def)

text \<open>
  C7 (amended). For every prior state, a session load that fails leaves the state of the
  hook exactly as it was: the message log and the bound session id are those from before
  the load (the log is empty afterwards only if it was empty before). The failure is
  written to the console.
\<close>

theorem C7_failed_load_amended:
  "state (loadSession None sid s) = s
   \<and> messages (state (loadSession None sid s)) = messages s
   \<and> currentSessionId (state (loadSession None sid s)) = currentSessionId s
   \<and> effects (loadSession None sid s)
     = [Get (''/sessions/'' @ sid), ConsoleError ''Failed to load session'']"
  by (simp add: loadSession_def)

text \<open>
  C8. A send whose content is empty or consists of white space only, with no attachment
  (\<^verbatim>\<open>fileUrl\<close> is \<^verbatim>\<open>undefined\<close> or empty), is a no-op: it resolves with \<^verbatim>\<open>undefined\<close>,
  leaves the state of the hook as it was, log and bound session id included, and has no
  effect at all, so neither a session-creation nor a message-creation request is issued.
\<close>

theorem C8_blank_send_is_noop:
  assumes "\<forall>c \<in> set txt. is_space c" and "\<not> truthy fileUrl"
  shows "sendMessage e txt fileUrl fileName s = \<lparr>returned = (), state = s, effects = []\<rparr>"
proof -
  from assms(1) have "trim txt = []" by (simp only: trim_Nil_iff)
  then show ?thesis using assms(2) by (rule sendMessage_blank)
qed

theorem C8_blank_send_witness:
  "list_all is_space ''  '' \<and> \<not> truthy None
   \<and> sendMessage
        \<lparr>date_now = 1700000000000, date_iso = ''2023-11-14T22:13:20.000Z'',
         post_sessions = Some ''s2'', post_message = True\<rparr> ''  '' None None
        \<lparr>messages = ([]::int message list), isLoading = False, currentSessionId = None, wsRef = None\<rparr>
     = \<lparr>returned = (),
        state = \<lparr>messages = ([]::int message list), isLoading = False, currentSessionId = None, wsRef = None\<rparr>,
        effects = []\<rparr>"
proof -
  have h0: "list_all is_space ''  ''"
    by (simp add: is_space_def)
  then have h1: "\<forall>c \<in> set ''  ''. is_space c"
    by (simp only: list_all_iff)
  have h2: "\<not> truthy None"
    by (simp add: truthy_def)
  from C8_blank_send_is_noop [OF h1 h2] h0 h2 show ?thesis by blast
qed

text \<open>
  C9 (as stated, refuted). A send of \<^verbatim>\<open>hi\<close> passes the guard on blank content; with no
  session bound and a session-creation request that fails, it calls neither creation
  endpoint.
\<close>

theorem C9_no_session_no_request_counterexample:
  "\<not> (trim ''hi'' = [] \<and> \<not> truthy None)
   \<and> creation_requests (sendMessage
      \<lparr>date_now = 1700000000000, date_iso = ''2023-11-14T22:13:20.000Z'',
       post_sessions = None, post_message = True\<rparr> ''hi'' None None
      \<lparr>messages = ([]::int message list), isLoading = False, currentSessionId = None, wsRef = None\<rparr>) = []"
  by (simp add: sendMessage_def ensure_session_def createSession_def truthy_def trim_def
      is_space_def creation_requests_def endpoint_sessions_def)

text \<open>
  C9 (amended). For every send that passes the guard on blank content and has a session
  id \<open>sid\<close> to work with (bound before, or created by the send), exactly one creation
  request is issued, chosen by the attachment: with an attachment URL it is
  \<^verbatim>\<open>POST /sessions/{sid}/messages/with-rag\<close> with content, sender, file_url and
  file_name; without one it is \<^verbatim>\<open>POST /sessions/{sid}/messages\<close> with content and
  sender.
\<close>

theorem C9_endpoint_by_attachment_amended:
  assumes "\<not> (trim txt = [] \<and> \<not> truthy fileUrl)"
    and "returned (ensure_session e s) = Some sid" and "sid \<noteq> []"
  shows "(truthy fileUrl \<longrightarrow>
            creation_requests (sendMessage e txt fileUrl fileName s)
            = [Post (''/sessions/'' @ sid @ ''/messages/with-rag'')
                 (RagBody txt User fileUrl fileName)])
       \<and> (\<not> truthy fileUrl \<longrightarrow>
            creation_requests (sendMessage e txt fileUrl fileName s)
            = [Post (''/sessions/'' @ sid @ ''/messages'') (PlainBody txt User)])"
  by (simp add: creation_requests_with_session [OF assms] creation_request_def
      endpoint_messages_def endpoint_messagesWithRag_def)

theorem C9_endpoint_by_attachment_witness:
  "(\<not> (trim ''hi'' = [] \<and> \<not> truthy (Some ''http://x/doc.pdf''))
    \<and> truthy (Some ''http://x/doc.pdf'')
    \<and> creation_requests (sendMessage
        \<lparr>date_now = 1700000000000, date_iso = ''2023-11-14T22:13:20.000Z'',
         post_sessions = None, post_message = True\<rparr>
        ''hi'' (Some ''http://x/doc.pdf'') (Some ''doc.pdf'')
        \<lparr>messages = ([]::int message list), isLoading = False, currentSessionId = Some ''s1'',
         wsRef = Some ''ws://localhost:8000/ws/s1''\<rparr>)
      = [Post ''/sessions/s1/messages/with-rag''
           (RagBody ''hi'' User (Some ''http://x/doc.pdf'') (Some ''doc.pdf''))])
   \<and> (\<not> (trim ''hi'' = [] \<and> \<not> truthy None)
    \<and> \<not> truthy None
    \<and> returned (ensure_session
        \<lparr>date_now = 1700000000000, date_iso = ''2023-11-14T22:13:20.000Z'',
         post_sessions = Some ''s2'', post_message = True\<rparr>
        \<lparr>messages = ([]::int message list), isLoading = False, currentSessionId = None, wsRef = None\<rparr>)
      = Some ''s2''
    \<and> creation_requests (sendMessage
        \<lparr>date_now = 1700000000000, date_iso = ''2023-11-14T22:13:20.000Z'',
         post_sessions = Some ''s2'', post_message = True\<rparr> ''hi'' None None
        \<lparr>messages = ([]::int message list), isLoading = False, currentSessionId = None, wsRef = None\<rparr>)
      = [Post ''/sessions/s2/messages'' (PlainBody ''hi'' User)])"
proof -
  let ?e1 = "\<lparr>date_now = 1700000000000, date_iso = ''2023-11-14T22:13:20.000Z'',
         post_sessions = None, post_message = True\<rparr>"
  let ?s1 = "\<lparr>messages = ([]::int message list), isLoading = False, currentSessionId = Some ''s1'',
         wsRef = Some ''ws://localhost:8000/ws/s1''\<rparr>"
  let ?e2 = "\<lparr>date_now = 1700000000000, date_iso = ''2023-11-14T22:13:20.000Z'',
         post_sessions = Some ''s2'', post_message = True\<rparr>"
  let ?s2 = "\<lparr>messages = ([]::int message list), isLoading = False, currentSessionId = None, wsRef = None\<rparr>"
  have t: "truthy (Some ''http://x/doc.pdf'')" and f: "\<not> truthy None"
    by (simp_all add: truthy_def)
  have nb1: "\<not> (trim ''hi'' = [] \<and> \<not> truthy (Some ''http://x/doc.pdf''))"
    by (simp add: t)
  have nb2: "\<not> (trim ''hi'' = [] \<and> \<not> truthy None)"
    by (simp add: trim_def is_space_def)
  have b1: "returned (ensure_session ?e1 ?s1) = Some ''s1''"
    by (simp add: ensure_session_def truthy_def)
  have b2: "returned (ensure_session ?e2 ?s2) = Some ''s2''"
    by (simp add: ensure_session_def createSession_def connectWebSocket_def truthy_def Let_def)
  have ne1: "''s1'' \<noteq> []" and ne2: "''s2'' \<noteq> []"
    by simp_all
  from C9_endpoint_by_attachment_amended [OF nb1 b1 ne1, of "Some ''doc.pdf''"] t
  have r1: "creation_requests (sendMessage ?e1 ''hi'' (Some ''http://x/doc.pdf'')
              (Some ''doc.pdf'') ?s1)
      = [Post ''/sessions/s1/messages/with-rag''
           (RagBody ''hi'' User (Some ''http://x/doc.pdf'') (Some ''doc.pdf''))]"
    by simp
  from C9_endpoint_by_attachment_amended [OF nb2 b2 ne2, of None] f
  have r2: "creation_requests (sendMessage ?e2 ''hi'' None None ?s2)
      = [Post ''/sessions/s2/messages'' (PlainBody ''hi'' User)]"
    by simp
  from nb1 t r1 nb2 f b2 r2 show ?thesis by blast
qed

text \<open>
  C10. The identifier of an optimistic entry is the value of \<^verbatim>\<open>Date.now()\<close> read when
  the entry is built. So two sends that pass the guard, work with a session and read the
  same millisecond append two entries with the same identifier: the log then holds a
  duplicate identifier, nothing in the pipeline enforcing freshness.
\<close>

theorem C10_same_millisecond_same_id:
  assumes "\<not> (trim txt1 = [] \<and> \<not> truthy url1)" and "\<not> (trim txt2 = [] \<and> \<not> truthy url2)"
    and "returned (ensure_session e1 s) = Some sid" and "sid \<noteq> []"
    and "date_now e2 = date_now e1"
  shows "messages (state (sendMessage e2 txt2 url2 name2
                      (state (sendMessage e1 txt1 url1 name1 s))))
           = messages s @ [tempMsg e1 txt1 url1 name1, tempMsg e2 txt2 url2 name2]
       \<and> msg_id (tempMsg e1 txt1 url1 name1) = date_now e1
       \<and> msg_id (tempMsg e2 txt2 url2 name2) = date_now e1
       \<and> \<not> unique_ids (messages (state (sendMessage e2 txt2 url2 name2
                      (state (sendMessage e1 txt1 url1 name1 s)))))"
proof -
  let ?s1 = "state (sendMessage e1 txt1 url1 name1 s)"
  note eq1 = sendMessage_with_session [OF assms(1) assms(3) assms(4)]
  have log1: "messages ?s1 = messages s @ [tempMsg e1 txt1 url1 name1]"
    by (simp add: eq1)
  have "currentSessionId ?s1 = Some sid"
    using ensure_session_bound [OF assms(3)] by (simp add: eq1)
  with assms(4) have sid2: "returned (ensure_session e2 ?s1) = Some sid"
    by (simp add: ensure_session_def truthy_def)
  note eq2 = sendMessage_with_session [OF assms(2) sid2 assms(4)]
  have log2: "messages (state (sendMessage e2 txt2 url2 name2 ?s1))
           = messages s @ [tempMsg e1 txt1 url1 name1, tempMsg e2 txt2 url2 name2]"
    by (simp add: eq2 log1)
  have id1: "msg_id (tempMsg e1 txt1 url1 name1) = date_now e1"
    by (simp add: tempMsg_def)
  have id2: "msg_id (tempMsg e2 txt2 url2 name2) = date_now e1"
    using assms(5) by (simp add: tempMsg_def)
  have "\<not> unique_ids (messages s @ [tempMsg e1 txt1 url1 name1, tempMsg e2 txt2 url2 name2])"
    by (simp add: unique_ids_def id1 id2)
  with log2 id1 id2 show ?thesis by simp
qed


theorem C10_same_millisecond_witness:
  "\<not> (trim ''a'' = [] \<and> \<not> truthy None) \<and> \<not> (trim ''b'' = [] \<and> \<not> truthy None)
   \<and> returned (ensure_session
        \<lparr>date_now = 1700000000000, date_iso = ''2023-11-14T22:13:20.000Z'',
         post_sessions = None, post_message = True\<rparr>
        \<lparr>messages = ([]::int message list), isLoading = False, currentSessionId = Some ''s1'',
         wsRef = Some ''ws://localhost:8000/ws/s1''\<rparr>) = Some ''s1''
   \<and> ''s1'' \<noteq> []
   \<and> map msg_id (messages (state (sendMessage
        \<lparr>date_now = 1700000000000, date_iso = ''2023-11-14T22:13:20.000Z'',
         post_sessions = None, post_message = True\<rparr> ''b'' None None
        (state (sendMessage
          \<lparr>date_now = 1700000000000, date_iso = ''2023-11-14T22:13:20.000Z'',
           post_sessions = None, post_message = True\<rparr> ''a'' None None
          \<lparr>messages = ([]::int message list), isLoading = False, currentSessionId = Some ''s1'',
           wsRef = Some ''ws://localhost:8000/ws/s1''\<rparr>)))))
     = [1700000000000, 1700000000000]"
proof -
  let ?e = "\<lparr>date_now = 1700000000000, date_iso = ''2023-11-14T22:13:20.000Z'',
         post_sessions = None, post_message = True\<rparr>"
  let ?s = "\<lparr>messages = ([]::int message list), isLoading = False, currentSessionId = Some ''s1'',
         wsRef = Some ''ws://localhost:8000/ws/s1''\<rparr>"
  have nb1: "\<not> (trim ''a'' = [] \<and> \<not> truthy None)"
    by (simp add: trim_def is_space_def)
  have nb2: "\<not> (trim ''b'' = [] \<and> \<not> truthy None)"
    by (simp add: trim_def is_space_def)
  have b: "returned (ensure_session ?e ?s) = Some ''s1''"
    by (simp add: ensure_session_def truthy_def)
  have ne: "''s1'' \<noteq> []"
    by simp
  have same: "date_now ?e = date_now ?e"
    by simp
  from C10_same_millisecond_same_id [OF nb1 nb2 b ne same, of None None]
  have "messages (state (sendMessage ?e ''b'' None None
                    (state (sendMessage ?e ''a'' None None ?s))))
          = messages ?s @ [tempMsg ?e ''a'' None None, tempMsg ?e ''b'' None None]"
    by blast
  then have "map msg_id (messages (state (sendMessage ?e ''b'' None None
                    (state (sendMessage ?e ''a'' None None ?s)))))
          = [1700000000000, 1700000000000]"
    by (simp add: tempMsg_def)
  with nb1 nb2 b ne show ?thesis by blast
qed

end
